theory Spec2Isabelle
  imports Main
begin

section \<open>Enumerations and JavaScript helpers\<close>

text \<open>Modelled from the spec: the declaration of the enum \<open>MembershipRole\<close>
  (imported from \<open>@calcom/prisma/enums\<close>) is not among the sources. The spec gives the
  roles MEMBER, ADMIN and OWNER.\<close>

datatype MembershipRole = MEMBER | ADMIN | OWNER

text \<open>Modelled from the spec: \<open>Object.keys(MembershipRole)\<close>, the keys of the enum
  whose declaration is not among the sources. The spec gives the canonical ordering of
  the role names as [MEMBER, ADMIN, OWNER].\<close>

definition MembershipRole_keys :: "MembershipRole list" where
  "MembershipRole_keys = [MEMBER, ADMIN, OWNER]"

text \<open>\<open>Array.prototype.findIndex\<close>: the index of the first element satisfying the
  predicate, \<open>-1\<close> when there is none.\<close>

fun findIndex :: "('a \<Rightarrow> bool) \<Rightarrow> 'a list \<Rightarrow> int" where
  "findIndex P [] = - 1"
| "findIndex P (x # xs) =
     (if P x then 0
      else (let i = findIndex P xs in if i < 0 then - 1 else i + 1))"

text \<open>\<open>compareMembership\<close> (index.tsx, lines 369-373).\<close>

definition compareMembership :: "MembershipRole \<Rightarrow> MembershipRole \<Rightarrow> bool" where
  "compareMembership mship1 mship2 =
     (let mshipToNumber = (\<lambda>mship. findIndex (\<lambda>mmship. mmship = mship) MembershipRole_keys)
      in mshipToNumber mship1 > mshipToNumber mship2)"

text \<open>Modelled from the spec: the declaration of the enum \<open>SchedulingType\<close>
  (imported from \<open>@calcom/prisma/enums\<close>) is not among the sources. The spec names one
  variant, MANAGED, which is the only one the code distinguishes; the other two stand for
  every scheduling type that is not MANAGED.\<close>

datatype SchedulingType = ROUND_ROBIN | COLLECTIVE | MANAGED

text \<open>Stored JSON blobs (team and event-type metadata).\<close>

datatype json = JNull | JBool bool | JNum int | JStr string
  | JArr "json list" | JObj "(string \<times> json) list"

text \<open>JavaScript truthiness of a JSON value, of a nullable string and of a nullable
  number.\<close>

fun truthy_json :: "json option \<Rightarrow> bool" where
  "truthy_json None = False"
| "truthy_json (Some JNull) = False"
| "truthy_json (Some (JBool b)) = b"
| "truthy_json (Some (JNum n)) = (n \<noteq> 0)"
| "truthy_json (Some (JStr s)) = (s \<noteq> [])"
| "truthy_json (Some (JArr xs)) = True"
| "truthy_json (Some (JObj kvs)) = True"

fun truthy_string :: "string option \<Rightarrow> bool" where
  "truthy_string None = False"
| "truthy_string (Some s) = (s \<noteq> [])"

fun truthy_number :: "int option \<Rightarrow> bool" where
  "truthy_number None = False"
| "truthy_number (Some n) = (n \<noteq> 0)"

text \<open>A nullable string inside a template literal: \<open>`${null}`\<close> is \<open>"null"\<close>,
  \<open>`${undefined}`\<close> is \<open>"undefined"\<close>.\<close>

fun template_null :: "string option \<Rightarrow> string" where
  "template_null None = ''null''"
| "template_null (Some s) = s"

fun template_undefined :: "string option \<Rightarrow> string" where
  "template_undefined None = ''undefined''"
| "template_undefined (Some s) = s"

text \<open>\<open>x || 0\<close> for a possibly missing number.\<close>

fun or_zero :: "int option \<Rightarrow> int" where
  "or_zero None = 0"
| "or_zero (Some n) = (if n = 0 then 0 else n)"

text \<open>\<open>String.prototype.split\<close> with a one-character separator, and \<open>xs[1]\<close>.\<close>

fun split_on :: "char \<Rightarrow> string \<Rightarrow> string list" where
  "split_on c [] = [[]]"
| "split_on c (x # xs) =
     (if x = c then [] # split_on c xs
      else (case split_on c xs of [] \<Rightarrow> [[x]] | w # ws \<Rightarrow> (x # w) # ws))"

fun index1 :: "'a list \<Rightarrow> 'a option" where
  "index1 (x # y # ys) = Some y"
| "index1 xs = None"

text \<open>The pattern match behind the store's string filters (SQL \<open>LIKE\<close>), pattern first:
  in the pattern, \<open>%\<close> stands for any string and \<open>_\<close> for any one character; every other
  character stands for itself.\<close>

fun like :: "string \<Rightarrow> string \<Rightarrow> bool" where
  "like [] s = (s = [])"
| "like (p # ps) [] = (p = CHR ''%'' \<and> like ps [])"
| "like (p # ps) (c # cs) =
     (if p = CHR ''%'' then like ps (c # cs) \<or> like (p # ps) cs
      else if p = CHR ''_'' then like ps cs
      else p = c \<and> like ps cs)"

text \<open>The store's filter \<open>endsWith: v\<close> on a field of value \<open>s\<close>: the pattern is \<open>%\<close>
  followed by \<open>v\<close> as it is given, so a \<open>%\<close> or \<open>_\<close> inside \<open>v\<close> is a wildcard too.\<close>

definition endsWith :: "string \<Rightarrow> string \<Rightarrow> bool" where
  "endsWith s v = like (CHR ''%'' # v) s"

text \<open>The exceptions of the two handlers: the \<open>TRPCError\<close>s they throw themselves (code
  and message), the \<open>TypeError\<close> of a property read on \<open>undefined\<close>, the store's
  exception for an update of a record that does not exist, and the exceptions of the
  imported functions (rate limiter, schema parsers).\<close>

datatype trpc_code = FORBIDDEN | INTERNAL_SERVER_ERROR

datatype error =
    TRPCError trpc_code "string option"
  | TypeError
  | RecordNotFound
  | ImportedError string

text \<open>\<open>Array.prototype.map\<close> with a callback that may throw: the first exception ends
  the traversal.\<close>

fun map_throwing :: "('a \<Rightarrow> error + 'b) \<Rightarrow> 'a list \<Rightarrow> error + 'b list" where
  "map_throwing f [] = Inr []"
| "map_throwing f (x # xs) =
     (case f x of Inl e \<Rightarrow> Inl e
      | Inr y \<Rightarrow> (case map_throwing f xs of Inl e \<Rightarrow> Inl e | Inr ys \<Rightarrow> Inr (y # ys)))"

section \<open>The store\<close>

text \<open>The tables the two handlers read and write, with the columns and relations that
  their queries name. \<open>user_eventTypes\<close> is the relation field \<open>eventTypes\<close> of a user,
  \<open>eventType_users\<close> and \<open>eventType_hosts\<close> the relation fields \<open>users\<close> and \<open>hosts\<close>
  of an event type, each as the list of the ids of the related rows.\<close>

record user_row =
  user_id :: int
  user_email :: string
  user_username :: "string option"
  user_name :: "string option"
  user_organizationId :: "int option"
  user_eventTypes :: "int list"

record team_row =
  team_id :: int
  team_isOrganization :: bool
  team_name :: string
  team_slug :: "string option"
  team_parentId :: "int option"
  team_metadata :: "json option"

record membership_row =
  membership_userId :: int
  membership_teamId :: int
  membership_role :: MembershipRole
  membership_accepted :: bool

record eventType_row =
  eventType_id :: int
  eventType_position :: int
  eventType_schedulingType :: "SchedulingType option"
  eventType_teamId :: "int option"
  eventType_userId :: "int option"
  eventType_description :: "string option"
  eventType_metadata :: "json option"
  eventType_parentId :: "int option"
  eventType_users :: "int list"
  eventType_hosts :: "int list"

record organizationSettings_row =
  settings_organizationId :: int
  settings_isOrganizationVerified :: bool

record db =
  db_users :: "user_row list"
  db_teams :: "team_row list"
  db_memberships :: "membership_row list"
  db_eventTypes :: "eventType_row list"
  db_organizationSettings :: "organizationSettings_row list"

section \<open>Query results and request input\<close>

text \<open>\<open>userSelect\<close> (index.tsx, lines 319-324).\<close>

record userSel =
  us_id :: int
  us_username :: "string option"
  us_name :: "string option"
  us_organizationId :: "int option"

text \<open>The \<open>team\<close> selection inside \<open>userEventTypeSelect\<close> (lines 332-341).\<close>

record eventTypeTeamSel =
  ett_id :: int
  ett_name :: string
  ett_slug :: "string option"

record childSel =
  child_id :: int
  child_users :: "userSel list"

text \<open>An event type as selected by \<open>userEventTypeSelect\<close> and \<open>teamEventTypeSelect\<close>
  (lines 326-367): the fields the handler reads. \<open>et_children\<close> is absent (None) for the
  viewer's own event types.\<close>

record eventTypeSel =
  et_id :: int
  et_position :: int
  et_schedulingType :: "SchedulingType option"
  et_userId :: "int option"
  et_team :: "eventTypeTeamSel option"
  et_description :: "string option"
  et_metadata :: "json option"
  et_users :: "userSel list"
  et_hosts :: "userSel list"
  et_children :: "childSel list option"

text \<open>The result of \<open>mapEventType\<close>: the selected fields and \<open>safeDescription\<close>.\<close>

record eventTypeMapped = eventTypeSel +
  safeDescription :: "string option"

text \<open>The team of a membership as selected at lines 402-427.\<close>

record teamSel =
  t_id :: int
  t_isOrganization :: bool
  t_name :: string
  t_slug :: "string option"
  t_parentId :: "int option"
  t_metadata :: "json option"
  t_parent :: "team_row option"
  t_members :: "int list"
  t_eventTypes :: "eventTypeSel list"

record membershipSel =
  ms_role :: MembershipRole
  ms_team :: teamSel

text \<open>The user as selected at lines 387-448.\<close>

record viewerSel =
  v_id :: int
  v_username :: "string option"
  v_name :: "string option"
  v_organizationId :: "int option"
  v_teams :: "membershipSel list"
  v_eventTypes :: "eventTypeSel list"

text \<open>The request input \<open>{ filters?: { userIds?, teamIds? }, forRoutingForms? }\<close>.\<close>

record filters =
  teamIds :: "int list option"
  userIds :: "int list option"

record TEventTypeInputSchema =
  input_filters :: "filters option"
  forRoutingForms :: "bool option"

text \<open>\<open>input?.filters\<close> and \<open>input?.forRoutingForms\<close> for a possibly missing input.\<close>

fun filtersOf :: "TEventTypeInputSchema option \<Rightarrow> filters option" where
  "filtersOf None = None"
| "filtersOf (Some i) = input_filters i"

fun forRoutingFormsOf :: "TEventTypeInputSchema option \<Rightarrow> bool" where
  "forRoutingFormsOf None = False"
| "forRoutingFormsOf (Some i) = (forRoutingForms i = Some True)"

text \<open>The output of \<open>getByViewerHandler\<close> (the type \<open>EventTypeGroup\<close>, lines 476-491,
  and the \<open>profiles\<close> projection, lines 605-610).\<close>

record profile =
  profile_slug :: "string option"
  profile_name :: "string option"
  profile_image :: string

record group_metadata =
  membershipCount :: nat
  readOnly :: bool

record EventTypeGroup =
  teamId :: "int option"
  parentId :: "int option"
  bookerUrl :: string
  membershipRole :: "MembershipRole option"
  group_profile :: profile
  metadata :: group_metadata
  eventTypes :: "eventTypeMapped list"

record profileSummary =
  ps_slug :: "string option"
  ps_name :: "string option"
  ps_image :: string
  ps_membershipCount :: nat
  ps_readOnly :: bool
  ps_teamId :: "int option"
  ps_membershipRole :: "MembershipRole option"

record getByViewerResult =
  eventTypeGroups :: "EventTypeGroup list"
  profiles :: "profileSummary list"

text \<open>The functions the handler imports from modules that are not among the sources,
  taken as parameters. \<open>checkRateLimitAndThrowError\<close> receives the viewer's id, which
  determines the identifier string; it answers the exception it throws, if any. The two
  schema parsers answer the parsed value or the exception.\<close>

record externals =
  checkRateLimitAndThrowError :: "int \<Rightarrow> error option"
  teamMetadataSchema_parse :: "json option \<Rightarrow> error + json option"
  EventTypeMetaDataSchema_parse :: "json option \<Rightarrow> error + json option"
  markdownToSafeHTML :: "string \<Rightarrow> string"
  getBookerBaseUrl :: "viewerSel \<Rightarrow> string"
  getBookerBaseUrlSync :: "string option \<Rightarrow> string"
  getUserAvatarUrl :: "string option \<Rightarrow> int option \<Rightarrow> string"
  getTeamAvatarUrl :: "string option \<Rightarrow> string option \<Rightarrow> int option \<Rightarrow> string"

section \<open>Filters\<close>

text \<open>Modelled from the spec: \<open>hasFilter\<close> (imported from
  \<open>@calcom/features/filters/lib/hasFilter\<close>) is not among the sources. The spec: a filter
  set is active only if it is non-null and contains at least one non-empty criterion. The
  handler calls it on a non-null filter set only, whose criteria are \<open>userIds\<close> and
  \<open>teamIds\<close>.\<close>

definition hasFilter :: "filters \<Rightarrow> bool" where
  "hasFilter fs =
     ((case teamIds fs of None \<Rightarrow> False | Some ids \<Rightarrow> ids \<noteq> [])
      \<or> (case userIds fs of None \<Rightarrow> False | Some ids \<Rightarrow> ids \<noteq> []))"

text \<open>\<open>getPrismaWhereUserIdFromFilter\<close> (lines 614-624).\<close>

definition getPrismaWhereUserIdFromFilter :: "int \<Rightarrow> filters option \<Rightarrow> int" where
  "getPrismaWhereUserIdFromFilter userId fso =
     (case fso of
        None \<Rightarrow> userId
      | Some fs \<Rightarrow>
          if \<not> hasFilter fs then userId
          else if (case userIds fs of Some (u # us) \<Rightarrow> u = userId | _ \<Rightarrow> False) then userId
          else 0)"

section \<open>Ordering by position (descending), then id (ascending)\<close>

definition position_desc_id_asc :: "'a eventTypeSel_scheme \<Rightarrow> 'b eventTypeSel_scheme \<Rightarrow> bool" where
  "position_desc_id_asc a b =
     (et_position b < et_position a \<or> (et_position a = et_position b \<and> et_id a \<le> et_id b))"

fun insert_ordered :: "'a eventTypeSel_scheme \<Rightarrow> 'a eventTypeSel_scheme list \<Rightarrow> 'a eventTypeSel_scheme list" where
  "insert_ordered x [] = [x]"
| "insert_ordered x (y # ys) =
     (if position_desc_id_asc x y then x # y # ys else y # insert_ordered x ys)"

text \<open>The store's \<open>orderBy: [{ position: "desc" }, { id: "asc" }]\<close> and lodash's
  \<open>orderBy(xs, ["position", "id"], ["desc", "asc"])\<close>: a stable sort.\<close>

fun orderBy :: "'a eventTypeSel_scheme list \<Rightarrow> 'a eventTypeSel_scheme list" where
  "orderBy [] = []"
| "orderBy (x # xs) = insert_ordered x (orderBy xs)"

section \<open>The store's read queries\<close>

text \<open>The nested selections of \<open>prisma.user.findUnique\<close> (lines 383-449). A relation
  to a row that the tables do not hold yields nothing (the store's foreign keys exclude
  it).\<close>

definition select_user :: "db \<Rightarrow> int \<Rightarrow> userSel option" where
  "select_user d i =
     map_option
       (\<lambda>u. \<lparr>us_id = user_id u, us_username = user_username u, us_name = user_name u,
             us_organizationId = user_organizationId u\<rparr>)
       (List.find (\<lambda>u. user_id u = i) (db_users d))"

definition select_eventType :: "db \<Rightarrow> bool \<Rightarrow> eventType_row \<Rightarrow> eventTypeSel" where
  "select_eventType d withChildren e =
     \<lparr>et_id = eventType_id e,
      et_position = eventType_position e,
      et_schedulingType = eventType_schedulingType e,
      et_userId = eventType_userId e,
      et_team =
        (case eventType_teamId e of
           None \<Rightarrow> None
         | Some t \<Rightarrow>
             map_option (\<lambda>r. \<lparr>ett_id = team_id r, ett_name = team_name r, ett_slug = team_slug r\<rparr>)
               (List.find (\<lambda>r. team_id r = t) (db_teams d))),
      et_description = eventType_description e,
      et_metadata = eventType_metadata e,
      et_users = List.map_filter (select_user d) (eventType_users e),
      et_hosts = List.map_filter (select_user d) (eventType_hosts e),
      et_children =
        (if withChildren
         then Some (map (\<lambda>c. \<lparr>child_id = eventType_id c,
                               child_users = List.map_filter (select_user d) (eventType_users c)\<rparr>)
                      (filter (\<lambda>c. eventType_parentId c = Some (eventType_id e)) (db_eventTypes d)))
         else None)\<rparr>"

definition select_team :: "db \<Rightarrow> team_row \<Rightarrow> teamSel" where
  "select_team d t =
     \<lparr>t_id = team_id t,
      t_isOrganization = team_isOrganization t,
      t_name = team_name t,
      t_slug = team_slug t,
      t_parentId = team_parentId t,
      t_metadata = team_metadata t,
      t_parent =
        (case team_parentId t of
           None \<Rightarrow> None
         | Some p \<Rightarrow> List.find (\<lambda>r. team_id r = p) (db_teams d)),
      t_members =
        map membership_userId (filter (\<lambda>m. membership_teamId m = team_id t) (db_memberships d)),
      t_eventTypes =
        orderBy (map (select_eventType d True)
                   (filter (\<lambda>e. eventType_teamId e = Some (team_id t)) (db_eventTypes d)))\<rparr>"

definition select_membership :: "db \<Rightarrow> membership_row \<Rightarrow> membershipSel option" where
  "select_membership d m =
     map_option (\<lambda>t. \<lparr>ms_role = membership_role m, ms_team = select_team d t\<rparr>)
       (List.find (\<lambda>t. team_id t = membership_teamId m) (db_teams d))"

definition user_findUnique :: "db \<Rightarrow> int \<Rightarrow> filters option \<Rightarrow> viewerSel option" where
  "user_findUnique d ctx_user_id fso =
     map_option
       (\<lambda>u. \<lparr>v_id = user_id u,
             v_username = user_username u,
             v_name = user_name u,
             v_organizationId = user_organizationId u,
             v_teams =
               List.map_filter (select_membership d)
                 (filter (\<lambda>m. membership_userId m = user_id u \<and> membership_accepted m)
                    (db_memberships d)),
             v_eventTypes =
               orderBy (map (select_eventType d False)
                          (filter (\<lambda>e. eventType_id e \<in> set (user_eventTypes u)
                                      \<and> eventType_teamId e = None
                                      \<and> eventType_userId e
                                          = Some (getPrismaWhereUserIdFromFilter ctx_user_id fso))
                             (db_eventTypes d)))\<rparr>)
       (List.find (\<lambda>u. user_id u = ctx_user_id) (db_users d))"

section \<open>getByViewerHandler\<close>

text \<open>\<open>mapEventType\<close> (lines 466-472).\<close>

definition mapEventType :: "externals \<Rightarrow> eventTypeSel \<Rightarrow> error + eventTypeMapped" where
  "mapEventType ext eventType =
     (case (if truthy_json (et_metadata eventType)
            then EventTypeMetaDataSchema_parse ext (et_metadata eventType)
            else Inr None) of
        Inl e \<Rightarrow> Inl e
      | Inr md \<Rightarrow>
          Inr \<lparr>et_id = et_id eventType,
               et_position = et_position eventType,
               et_schedulingType = et_schedulingType eventType,
               et_userId = et_userId eventType,
               et_team = et_team eventType,
               et_description = et_description eventType,
               et_metadata = md,
               et_users =
                 (if et_hosts eventType \<noteq> [] then et_hosts eventType else et_users eventType),
               et_hosts = et_hosts eventType,
               et_children = et_children eventType,
               safeDescription =
                 (if truthy_string (et_description eventType)
                  then map_option (markdownToSafeHTML ext) (et_description eventType)
                  else None)\<rparr>)"

text \<open>The condition of line 499, under which the personal group is pushed.\<close>

definition personalGroupIncluded :: "TEventTypeInputSchema option \<Rightarrow> int \<Rightarrow> bool" where
  "personalGroupIncluded input user_id' =
     (case filtersOf input of
        None \<Rightarrow> True
      | Some fs \<Rightarrow>
          \<not> hasFilter fs
          \<or> (case userIds fs of None \<Rightarrow> False | Some ids \<Rightarrow> user_id' \<in> set ids))"

text \<open>The personal group (lines 500-515).\<close>

definition personalGroup :: "externals \<Rightarrow> viewerSel \<Rightarrow> eventTypeMapped list \<Rightarrow> EventTypeGroup" where
  "personalGroup ext user unmanagedEventTypes =
     \<lparr>teamId = None,
      parentId = None,
      bookerUrl = getBookerBaseUrl ext user,
      membershipRole = None,
      group_profile =
        \<lparr>profile_slug = v_username user,
         profile_name = v_name user,
         profile_image = getUserAvatarUrl ext (v_username user) (v_organizationId user)\<rparr>,
      metadata = \<lparr>membershipCount = 1, readOnly = False\<rparr>,
      eventTypes = orderBy unmanagedEventTypes\<rparr>"

text \<open>\<open>filterTeamsEventTypesBasedOnInput\<close> (lines 523-528).\<close>

definition filterTeamsEventTypesBasedOnInput ::
  "TEventTypeInputSchema option \<Rightarrow> eventTypeMapped \<Rightarrow> bool" where
  "filterTeamsEventTypesBasedOnInput input eventType =
     (case filtersOf input of
        None \<Rightarrow> True
      | Some fs \<Rightarrow>
          if \<not> hasFilter fs then True
          else (case teamIds fs of
                  None \<Rightarrow> False
                | Some ids \<Rightarrow> or_zero (map_option ett_id (et_team eventType)) \<in> set ids))"

text \<open>The callback of \<open>memberships.filter\<close> (lines 532-541).\<close>

definition teamMembershipFilter :: "TEventTypeInputSchema option \<Rightarrow> membershipSel \<Rightarrow> bool" where
  "teamMembershipFilter input mmship =
     (if t_isOrganization (ms_team mmship) then False
      else (case filtersOf input of
              None \<Rightarrow> True
            | Some fs \<Rightarrow>
                if \<not> hasFilter fs then True
                else (case teamIds fs of
                        None \<Rightarrow> False
                      | Some ids \<Rightarrow> or_zero (Some (t_id (ms_team mmship))) \<in> set ids)))"

text \<open>The callback of \<open>.map\<close> that builds a team group (lines 542-599).
  \<open>teamMemberships\<close> holds the pairs \<open>(teamId, membershipRole)\<close> of lines 518-521.\<close>

definition teamGroup ::
  "externals \<Rightarrow> TEventTypeInputSchema option \<Rightarrow> int \<Rightarrow> (int \<times> MembershipRole) list
     \<Rightarrow> membershipSel \<Rightarrow> error + EventTypeGroup" where
  "teamGroup ext input ctx_user_id teamMemberships membership =
     (let orgMembership =
            map_option snd
              (List.find (\<lambda>teamM. Some (fst teamM) = t_parentId (ms_team membership))
                 teamMemberships)
      in case teamMetadataSchema_parse ext (t_metadata (ms_team membership)) of
           Inl e \<Rightarrow> Inl e
         | Inr md \<Rightarrow>
             (let team = (ms_team membership)\<lparr>t_metadata := md\<rparr>;
                  slug =
                    (if forRoutingFormsOf input
                     then Some (''team/'' @ template_null (t_slug team))
                     else if truthy_string (t_slug team)
                          then (if \<not> truthy_number (t_parentId team)
                                then Some (''team/'' @ template_null (t_slug team))
                                else Some (template_null (t_slug team)))
                          else None)
              in case map_throwing (mapEventType ext) (t_eventTypes team) of
                   Inl e \<Rightarrow> Inl e
                 | Inr mapped \<Rightarrow>
                     Inr \<lparr>teamId = Some (t_id team),
                          parentId = t_parentId team,
                          bookerUrl =
                            getBookerBaseUrlSync ext
                              (case t_parent team of None \<Rightarrow> None | Some p \<Rightarrow> team_slug p),
                          membershipRole =
                            (case orgMembership of
                               None \<Rightarrow> Some (ms_role membership)
                             | Some om \<Rightarrow>
                                 if compareMembership om (ms_role membership) then Some om
                                 else Some (ms_role membership)),
                          group_profile =
                            \<lparr>profile_slug = slug,
                             profile_name = Some (t_name team),
                             profile_image =
                               getTeamAvatarUrl ext (t_slug team)
                                 (case t_metadata team of
                                    Some (JObj kvs) \<Rightarrow>
                                      (case map_of (rev kvs) ''requestedSlug'' of
                                         Some (JStr s) \<Rightarrow> Some s
                                       | _ \<Rightarrow> None)
                                  | _ \<Rightarrow> None)
                                 (t_parentId team)\<rparr>,
                          metadata =
                            \<lparr>membershipCount = length (t_members team),
                             readOnly =
                               (ms_role membership
                                = (if truthy_number (t_parentId team)
                                   then (case orgMembership of
                                           None \<Rightarrow> MEMBER
                                         | Some om \<Rightarrow>
                                             if compareMembership om (ms_role membership)
                                             then om else MEMBER)
                                   else MEMBER))\<rparr>,
                          eventTypes =
                            filter (\<lambda>evType.
                                      if ms_role membership = MEMBER
                                      then et_schedulingType evType \<noteq> Some MANAGED
                                      else True)
                              (filter (\<lambda>evType. et_userId evType = None
                                                 \<or> et_userId evType = Some ctx_user_id)
                                 (filter (filterTeamsEventTypesBasedOnInput input) mapped))\<rparr>))"

text \<open>The \<open>profiles\<close> projection (lines 605-610).\<close>

definition profileOf :: "EventTypeGroup \<Rightarrow> profileSummary" where
  "profileOf grp =
     \<lparr>ps_slug = profile_slug (group_profile grp),
      ps_name = profile_name (group_profile grp),
      ps_image = profile_image (group_profile grp),
      ps_membershipCount = membershipCount (metadata grp),
      ps_readOnly = readOnly (metadata grp),
      ps_teamId = teamId grp,
      ps_membershipRole = membershipRole grp\<rparr>"

text \<open>The handler after the query has answered a user (lines 455-611).\<close>

definition getByViewer_groups ::
  "externals \<Rightarrow> int \<Rightarrow> TEventTypeInputSchema option \<Rightarrow> viewerSel \<Rightarrow> error + getByViewerResult" where
  "getByViewer_groups ext ctx_user_id input user =
     (case map_throwing
             (\<lambda>membership.
                case teamMetadataSchema_parse ext (t_metadata (ms_team membership)) of
                  Inl e \<Rightarrow> Inl e
                | Inr md \<Rightarrow> Inr (membership\<lparr>ms_team := (ms_team membership)\<lparr>t_metadata := md\<rparr>\<rparr>))
             (v_teams user) of
        Inl e \<Rightarrow> Inl e
      | Inr memberships \<Rightarrow>
          (case map_throwing (mapEventType ext) (v_eventTypes user) of
             Inl e \<Rightarrow> Inl e
           | Inr userEventTypes \<Rightarrow>
               (let unmanagedEventTypes =
                      filter (\<lambda>evType. et_schedulingType evType \<noteq> Some MANAGED) userEventTypes;
                    personal =
                      (if personalGroupIncluded input (v_id user)
                       then [personalGroup ext user unmanagedEventTypes] else []);
                    teamMemberships =
                      map (\<lambda>membership. (t_id (ms_team membership), ms_role membership))
                        (v_teams user)
                in case map_throwing (teamGroup ext input ctx_user_id teamMemberships)
                          (filter (teamMembershipFilter input) memberships) of
                     Inl e \<Rightarrow> Inl e
                   | Inr teamGroups \<Rightarrow>
                       Inr \<lparr>eventTypeGroups = personal @ teamGroups,
                            profiles = map profileOf (personal @ teamGroups)\<rparr>)))"

text \<open>\<open>getByViewerHandler\<close> (lines 375-612).\<close>

definition getByViewerHandler ::
  "externals \<Rightarrow> db \<Rightarrow> int \<Rightarrow> TEventTypeInputSchema option \<Rightarrow> error + getByViewerResult" where
  "getByViewerHandler ext d ctx_user_id input =
     (case checkRateLimitAndThrowError ext ctx_user_id of
        Some e \<Rightarrow> Inl e
      | None \<Rightarrow>
          (case user_findUnique d ctx_user_id (filtersOf input) of
             None \<Rightarrow> Inl (TRPCError INTERNAL_SERVER_ERROR None)
           | Some user \<Rightarrow> getByViewer_groups ext ctx_user_id input user))"

section \<open>adminVerifyHandler\<close>

record TAdminVerifyInput =
  orgId :: int

record adminVerifyResult =
  ok :: bool
  message :: string

text \<open>\<open>prisma.team.findFirst\<close> of lines 16-31: the first team with the given id that is
  flagged \<open>isOrganization\<close>, with its members of role OWNER and the user of each.\<close>

definition team_findFirst ::
  "db \<Rightarrow> int \<Rightarrow> (team_row \<times> (membership_row \<times> user_row) list) option" where
  "team_findFirst d org =
     map_option
       (\<lambda>t. (t, List.map_filter
                  (\<lambda>m. map_option (\<lambda>u. (m, u))
                          (List.find (\<lambda>u. user_id u = membership_userId m) (db_users d)))
                  (filter (\<lambda>m. membership_teamId m = team_id t \<and> membership_role m = OWNER)
                     (db_memberships d))))
       (List.find (\<lambda>t. team_id t = org \<and> team_isOrganization t) (db_teams d))"

text \<open>\<open>prisma.organizationSettings.update\<close> of lines 41-48: an update of a record that
  does not exist throws.\<close>

definition organizationSettings_update :: "db \<Rightarrow> int \<Rightarrow> error + db" where
  "organizationSettings_update d org =
     (if list_ex (\<lambda>s. settings_organizationId s = org) (db_organizationSettings d)
      then Inr (d\<lparr>db_organizationSettings :=
                    map (\<lambda>s. if settings_organizationId s = org
                              then s\<lparr>settings_isOrganizationVerified := True\<rparr> else s)
                      (db_organizationSettings d)\<rparr>)
      else Inl RecordNotFound)"

text \<open>\<open>prisma.user.findMany\<close> of lines 50-65. The filter on the email is the store's
  pattern match \<open>endsWith\<close>; a filter whose value is \<open>undefined\<close> is no filter.\<close>

definition user_findMany :: "db \<Rightarrow> string option \<Rightarrow> int \<Rightarrow> user_row list" where
  "user_findMany d acceptedEmailDomain org =
     filter
       (\<lambda>u. (case acceptedEmailDomain of None \<Rightarrow> True | Some suffix \<Rightarrow> endsWith (user_email u) suffix)
            \<and> list_ex (\<lambda>m. membership_userId m = user_id u \<and> membership_teamId m = org)
                (db_memberships d))
       (db_users d)"

text \<open>The two statements of the transaction (lines 69-100). Neither can fail here, so
  the transaction is the one after the other; a rollback is not modelled.\<close>

definition membership_updateMany :: "db \<Rightarrow> int list \<Rightarrow> int \<Rightarrow> db" where
  "membership_updateMany d ids org =
     d\<lparr>db_memberships :=
         map (\<lambda>m. if membership_userId m \<in> set ids
                     \<and> ((case List.find (\<lambda>t. team_id t = membership_teamId m) (db_teams d) of
                           None \<Rightarrow> False
                         | Some t \<Rightarrow> team_parentId t = Some org)
                        \<or> membership_teamId m = org)
                  then m\<lparr>membership_accepted := True\<rparr> else m)
           (db_memberships d)\<rparr>"

definition user_updateMany :: "db \<Rightarrow> int list \<Rightarrow> int \<Rightarrow> db" where
  "user_updateMany d ids org =
     d\<lparr>db_users :=
         map (\<lambda>u. if user_id u \<in> set ids then u\<lparr>user_organizationId := Some org\<rparr> else u)
           (db_users d)\<rparr>"

text \<open>\<open>adminVerifyHandler\<close> (lines 15-106): the answer or the exception, and the store
  after the call.\<close>

definition adminVerifyHandler :: "db \<Rightarrow> TAdminVerifyInput \<Rightarrow> (error + adminVerifyResult) \<times> db" where
  "adminVerifyHandler d input =
     (case team_findFirst d (orgId input) of
        None \<Rightarrow>
          (Inl (TRPCError FORBIDDEN (Some ''This team isnt a org or doesnt exist'')), d)
      | Some foundOrg \<Rightarrow>
          (case snd foundOrg of
             [] \<Rightarrow> (Inl TypeError, d)
           | member # rest \<Rightarrow>
               (let acceptedEmailDomain = index1 (split_on CHR ''@'' (user_email (snd member)))
                in case organizationSettings_update d (orgId input) of
                     Inl e \<Rightarrow> (Inl e, d)
                   | Inr d1 \<Rightarrow>
                       (let foundUsersWithMatchingEmailDomain =
                              user_findMany d1 acceptedEmailDomain (orgId input);
                            ids = map user_id foundUsersWithMatchingEmailDomain;
                            d2 = user_updateMany (membership_updateMany d1 ids (orgId input))
                                   ids (orgId input)
                        in (Inr \<lparr>ok = True,
                                 message =
                                   ''Verified Organization - Auto accepted all members ending in ''
                                   @ template_undefined acceptedEmailDomain\<rparr>,
                            d2)))))"

section \<open>The wording of the spec\<close>

text \<open>The spec's wording of role strength: the position of a role in the sequence
  [MEMBER, ADMIN, OWNER].\<close>

fun role_index :: "MembershipRole \<Rightarrow> nat" where
  "role_index MEMBER = 0"
| "role_index ADMIN = 1"
| "role_index OWNER = 2"

text \<open>The spec's wording of the effective role of a membership: the stronger of the
  viewer's role in the parent of the team and the role in the team, when the team has a
  parent in which the viewer holds a (loaded) membership; the role in the team otherwise.\<close>

definition effectiveRole :: "membershipSel list \<Rightarrow> membershipSel \<Rightarrow> MembershipRole" where
  "effectiveRole viewerMemberships m =
     (case t_parentId (ms_team m) of
        None \<Rightarrow> ms_role m
      | Some p \<Rightarrow>
          (case List.find (\<lambda>pm. t_id (ms_team pm) = p) viewerMemberships of
             None \<Rightarrow> ms_role m
           | Some pm \<Rightarrow>
               if role_index (ms_role m) < role_index (ms_role pm) then ms_role pm
               else ms_role m))"




section \<open>A concrete store and requests\<close>

text \<open>An organization Acme (team 10) with the sub-team Sales (team 11), a stand-alone
  team without a slug (team 12) and an organization without an owner (team 13). User 1
  owns Acme and is a plain member of Sales and an admin of team 12; users 2 and 3 were
  invited to Acme, and to one more team each, and have not accepted; user 2 is an admin of
  the organization 13.\<close>

definition example_user :: "int \<Rightarrow> string \<Rightarrow> string \<Rightarrow> int list \<Rightarrow> user_row" where
  "example_user i mail uname ets =
     \<lparr>user_id = i, user_email = mail, user_username = Some uname, user_name = None,
      user_organizationId = None, user_eventTypes = ets\<rparr>"

definition example_team :: "int \<Rightarrow> bool \<Rightarrow> string \<Rightarrow> string option \<Rightarrow> int option \<Rightarrow> team_row" where
  "example_team i org nm sl par =
     \<lparr>team_id = i, team_isOrganization = org, team_name = nm, team_slug = sl,
      team_parentId = par, team_metadata = None\<rparr>"

definition example_membership :: "int \<Rightarrow> int \<Rightarrow> MembershipRole \<Rightarrow> bool \<Rightarrow> membership_row" where
  "example_membership u t r a =
     \<lparr>membership_userId = u, membership_teamId = t, membership_role = r,
      membership_accepted = a\<rparr>"

definition example_eventType ::
  "int \<Rightarrow> int \<Rightarrow> SchedulingType option \<Rightarrow> int option \<Rightarrow> int option \<Rightarrow> eventType_row" where
  "example_eventType i pos st team usr =
     \<lparr>eventType_id = i, eventType_position = pos, eventType_schedulingType = st,
      eventType_teamId = team, eventType_userId = usr, eventType_description = None,
      eventType_metadata = None, eventType_parentId = None, eventType_users = [],
      eventType_hosts = []\<rparr>"

definition example_db :: db where
  "example_db =
     \<lparr>db_users =
        [example_user 1 ''owner@acme.com'' ''owner'' [100, 101, 102],
         example_user 2 ''a@acme.com'' ''a'' [],
         example_user 3 ''b@other.com'' ''b'' []],
      db_teams =
        [example_team 10 True ''Acme'' (Some ''acme'') None,
         example_team 11 False ''Sales'' (Some ''sales'') (Some 10),
         example_team 12 False ''Side'' None None,
         example_team 13 True ''Empty'' (Some ''empty'') None],
      db_memberships =
        [example_membership 1 10 OWNER True,
         example_membership 1 11 MEMBER True,
         example_membership 1 12 ADMIN True,
         example_membership 2 10 MEMBER False,
         example_membership 2 11 MEMBER False,
         example_membership 3 10 MEMBER False,
         example_membership 3 12 MEMBER False,
         example_membership 2 13 ADMIN True],
      db_eventTypes =
        [example_eventType 100 0 None None (Some 1),
         example_eventType 101 2 (Some COLLECTIVE) None (Some 1),
         example_eventType 102 1 (Some MANAGED) None (Some 1),
         example_eventType 200 0 (Some MANAGED) (Some 11) None,
         example_eventType 201 1 (Some COLLECTIVE) (Some 11) None,
         example_eventType 202 3 None (Some 11) (Some 2),
         example_eventType 203 0 (Some MANAGED) (Some 12) None,
         example_eventType 204 0 (Some ROUND_ROBIN) (Some 12) None],
      db_organizationSettings =
        [\<lparr>settings_organizationId = 10, settings_isOrganizationVerified = False\<rparr>,
         \<lparr>settings_organizationId = 13, settings_isOrganizationVerified = False\<rparr>]\<rparr>"

definition example_externals :: externals where
  "example_externals =
     \<lparr>checkRateLimitAndThrowError = (\<lambda>u. None),
      teamMetadataSchema_parse = Inr,
      EventTypeMetaDataSchema_parse = Inr,
      markdownToSafeHTML = (\<lambda>s. s),
      getBookerBaseUrl = (\<lambda>u. ''https://cal.example''),
      getBookerBaseUrlSync = (\<lambda>s. ''https://cal.example''),
      getUserAvatarUrl = (\<lambda>u organizationId. ''avatar.png''),
      getTeamAvatarUrl = (\<lambda>s requestedSlug organizationId. ''avatar.png'')\<rparr>"

text \<open>What the examples read off an answer of \<open>getByViewerHandler\<close>: per group, the team
  id, the ids of the event types, the profile slug, the effective role and the read-only
  flag.\<close>

definition groupsSummary ::
  "error + getByViewerResult
     \<Rightarrow> error + (int option \<times> int list \<times> string option \<times> MembershipRole option \<times> bool) list" where
  "groupsSummary r =
     (case r of
        Inl e \<Rightarrow> Inl e
      | Inr out \<Rightarrow>
          Inr (map (\<lambda>g. (teamId g, map et_id (eventTypes g), profile_slug (group_profile g),
                          membershipRole g, readOnly (metadata g)))
                 (eventTypeGroups out)))"

text \<open>The answer and the loaded user of the request of user 1 without input.\<close>

definition example_answer :: getByViewerResult where
  "example_answer = projr (getByViewerHandler example_externals example_db 1 None)"

definition example_viewer :: viewerSel where
  "example_viewer = the (user_findUnique example_db 1 (filtersOf None))"

text \<open>A request of user 1 that filters by team 11 only, its answer and its loaded user.\<close>

definition example_input_team_11 :: "TEventTypeInputSchema option" where
  "example_input_team_11 =
     Some \<lparr>input_filters = Some \<lparr>teamIds = Some [11], userIds = None\<rparr>, forRoutingForms = None\<rparr>"

definition example_answer_team_11 :: getByViewerResult where
  "example_answer_team_11 =
     projr (getByViewerHandler example_externals example_db 1 example_input_team_11)"

definition example_viewer_team_11 :: viewerSel where
  "example_viewer_team_11 = the (user_findUnique example_db 1 (filtersOf example_input_team_11))"

text \<open>Requests of user 1 with a user filter that lists user 1 alone, and one that lists
  user 1 second.\<close>

definition example_input_user_1 :: "TEventTypeInputSchema option" where
  "example_input_user_1 =
     Some \<lparr>input_filters = Some \<lparr>teamIds = None, userIds = Some [1]\<rparr>, forRoutingForms = None\<rparr>"

definition example_input_users_2_1 :: "TEventTypeInputSchema option" where
  "example_input_users_2_1 =
     Some \<lparr>input_filters = Some \<lparr>teamIds = None, userIds = Some [2, 1]\<rparr>,
           forRoutingForms = None\<rparr>"

text \<open>A request of user 1 for routing forms.\<close>

definition example_input_routing :: "TEventTypeInputSchema option" where
  "example_input_routing = Some \<lparr>input_filters = None, forRoutingForms = Some True\<rparr>"


section \<open>Role comparison\<close>

lemma compareMembership_role_index:
  "compareMembership a b \<longleftrightarrow> role_index b < role_index a"
  by (cases a; cases b) (simp_all add: compareMembership_def MembershipRole_keys_def)

lemma role_index_MEMBER: "role_index r = 0 \<longleftrightarrow> r = MEMBER"
  by (cases r) simp_all

text \<open>C9: for all roles a and b of the sequence [MEMBER, ADMIN, OWNER],
  \<open>compareMembership a b\<close> is true if and only if the index of a exceeds the index of b;
  \<open>compareMembership MEMBER OWNER\<close> is false, \<open>compareMembership OWNER MEMBER\<close> is true
  and \<open>compareMembership ADMIN ADMIN\<close> is false.\<close>

theorem compareMembership_iff_index:
  "(compareMembership a b \<longleftrightarrow> role_index b < role_index a)
   \<and> \<not> compareMembership MEMBER OWNER
   \<and> compareMembership OWNER MEMBER
   \<and> \<not> compareMembership ADMIN ADMIN"
  by (cases a; cases b) (simp_all add: compareMembership_def MembershipRole_keys_def)

theorem compareMembership_iff_index_witness:
  "compareMembership OWNER ADMIN \<and> role_index ADMIN < role_index OWNER"
  using compareMembership_iff_index [of OWNER ADMIN] by simp

section \<open>Lists, exceptions and the ordering\<close>

lemma map_throwing_Inr:
  "map_throwing f xs = Inr ys \<Longrightarrow> list_all2 (\<lambda>x y. f x = Inr y) xs ys"
proof (induction xs arbitrary: ys)
  case Nil
  then show ?case by simp
next
  case (Cons x xs)
  then show ?case by (auto split: sum.splits)
qed

lemma list_all2_filter:
  "list_all2 R xs ys \<Longrightarrow> (\<And>x y. R x y \<Longrightarrow> P x = Q y)
     \<Longrightarrow> list_all2 R (filter P xs) (filter Q ys)"
  by (induction rule: list_all2_induct) auto

lemma list_all2_right_member:
  "list_all2 R xs ys \<Longrightarrow> y \<in> set ys \<Longrightarrow> \<exists>x\<in>set xs. R x y"
  by (induction rule: list_all2_induct) auto

lemma list_all2_compose:
  "list_all2 R xs ys \<Longrightarrow> list_all2 S ys zs \<Longrightarrow> list_all2 (\<lambda>x z. \<exists>y. R x y \<and> S y z) xs zs"
proof (induction arbitrary: zs rule: list_all2_induct)
  case Nil
  then show ?case by simp
next
  case (Cons x xs y ys)
  then show ?case by (cases zs) auto
qed

lemma find_Some_member: "List.find P xs = Some x \<Longrightarrow> x \<in> set xs \<and> P x"
  by (induction xs) (auto split: if_splits)

lemma find_False: "List.find (\<lambda>x. False) xs = None"
  by (induction xs) auto


lemma position_desc_id_asc_total:
  "position_desc_id_asc a b \<or> position_desc_id_asc b a"
  by (auto simp: position_desc_id_asc_def)

lemma position_desc_id_asc_trans:
  "position_desc_id_asc a b \<Longrightarrow> position_desc_id_asc b c \<Longrightarrow> position_desc_id_asc a c"
  by (auto simp: position_desc_id_asc_def)

lemma set_insert_ordered: "set (insert_ordered x xs) = insert x (set xs)"
  by (induction xs) auto

lemma sorted_insert_ordered:
  "sorted_wrt position_desc_id_asc xs \<Longrightarrow> sorted_wrt position_desc_id_asc (insert_ordered x xs)"
proof (induction xs)
  case Nil
  then show ?case by simp
next
  case (Cons y ys)
  show ?case
  proof (cases "position_desc_id_asc x y")
    case True
    with Cons.prems show ?thesis
      by (auto intro: position_desc_id_asc_trans)
  next
    case False
    then have "position_desc_id_asc y x"
      using position_desc_id_asc_total [of x y] by simp
    with False Cons show ?thesis
      by (auto simp: set_insert_ordered)
  qed
qed

lemma sorted_orderBy: "sorted_wrt position_desc_id_asc (orderBy xs)"
  by (induction xs) (simp_all add: sorted_insert_ordered)

lemma mapEventType_fields:
  "mapEventType ext e = Inr m \<Longrightarrow>
     et_id m = et_id e \<and> et_position m = et_position e
     \<and> et_schedulingType m = et_schedulingType e \<and> et_userId m = et_userId e
     \<and> et_team m = et_team e"
  by (auto simp: mapEventType_def split: sum.splits if_splits)

lemma sorted_map_throwing_mapEventType:
  assumes "map_throwing (mapEventType ext) xs = Inr ys"
    and "sorted_wrt position_desc_id_asc xs"
  shows "sorted_wrt position_desc_id_asc ys"
proof -
  have rel: "list_all2 (\<lambda>x y. mapEventType ext x = Inr y) xs ys"
    using assms(1) by (rule map_throwing_Inr)
  then have len: "length xs = length ys"
    by (rule list_all2_lengthD)
  have key: "et_position (ys ! i) = et_position (xs ! i) \<and> et_id (ys ! i) = et_id (xs ! i)"
    if "i < length ys" for i
    using list_all2_nthD [OF rel, of i] that len mapEventType_fields by auto
  show ?thesis
    using assms(2) len key
    unfolding sorted_wrt_iff_nth_less position_desc_id_asc_def
    by (metis order_less_trans)
qed

section \<open>The shape of an answer of getByViewerHandler\<close>

lemma getByViewerHandler_Inr:
  assumes "getByViewerHandler ext d uid input = Inr out"
    and "user_findUnique d uid (filtersOf input) = Some user"
  shows "getByViewer_groups ext uid input user = Inr out"
  using assms by (auto simp: getByViewerHandler_def split: option.splits)

lemma user_findUnique_id:
  "user_findUnique d uid fso = Some user \<Longrightarrow> v_id user = uid"
  by (auto simp: user_findUnique_def dest: find_Some_member)

lemma loaded_team_in_store:
  assumes "user_findUnique d uid fso = Some user" and "m \<in> set (v_teams user)"
  shows "\<exists>t\<in>set (db_teams d). t_id (ms_team m) = team_id t"
proof -
  from assms obtain row where "select_membership d row = Some m"
    by (auto simp: user_findUnique_def List.map_filter_def)
  then obtain t where
    found: "List.find (\<lambda>t. team_id t = membership_teamId row) (db_teams d) = Some t"
    and m: "m = \<lparr>ms_role = membership_role row, ms_team = select_team d t\<rparr>"
    by (auto simp: select_membership_def)
  from found have "t \<in> set (db_teams d)"
    by (simp add: find_Some_member)
  moreover from m have "t_id (ms_team m) = team_id t"
    by (simp add: select_team_def)
  ultimately show ?thesis
    by blast
qed

lemma getByViewer_groups_Inr:
  assumes "getByViewer_groups ext uid input user = Inr out"
  obtains memberships userEventTypes teamGroups where
    "list_all2 (\<lambda>m m'. \<exists>md. m' = m\<lparr>ms_team := (ms_team m)\<lparr>t_metadata := md\<rparr>\<rparr>)
       (v_teams user) memberships"
    "map_throwing (mapEventType ext) (v_eventTypes user) = Inr userEventTypes"
    "list_all2 (\<lambda>m g. teamGroup ext input uid
                         (map (\<lambda>membership. (t_id (ms_team membership), ms_role membership))
                            (v_teams user)) m = Inr g)
       (filter (teamMembershipFilter input) memberships) teamGroups"
    "eventTypeGroups out =
       (if personalGroupIncluded input (v_id user)
        then [personalGroup ext user
                (filter (\<lambda>evType. et_schedulingType evType \<noteq> Some MANAGED) userEventTypes)]
        else []) @ teamGroups"
proof -
  from assms obtain memberships where
    m: "map_throwing
             (\<lambda>membership.
                case teamMetadataSchema_parse ext (t_metadata (ms_team membership)) of
                  Inl e \<Rightarrow> Inl e
                | Inr md \<Rightarrow> Inr (membership\<lparr>ms_team := (ms_team membership)\<lparr>t_metadata := md\<rparr>\<rparr>))
             (v_teams user) = Inr memberships"
    by (auto simp: getByViewer_groups_def split: sum.splits)
  from assms m obtain userEventTypes where
    u: "map_throwing (mapEventType ext) (v_eventTypes user) = Inr userEventTypes"
    by (auto simp: getByViewer_groups_def split: sum.splits)
  from assms m u obtain teamGroups where
    t: "map_throwing (teamGroup ext input uid
                         (map (\<lambda>membership. (t_id (ms_team membership), ms_role membership))
                            (v_teams user)))
          (filter (teamMembershipFilter input) memberships) = Inr teamGroups"
    and o: "eventTypeGroups out =
       (if personalGroupIncluded input (v_id user)
        then [personalGroup ext user
                (filter (\<lambda>evType. et_schedulingType evType \<noteq> Some MANAGED) userEventTypes)]
        else []) @ teamGroups"
    by (auto simp: getByViewer_groups_def Let_def split: sum.splits)
  have "list_all2 (\<lambda>m m'. \<exists>md. m' = m\<lparr>ms_team := (ms_team m)\<lparr>t_metadata := md\<rparr>\<rparr>)
       (v_teams user) memberships"
    using map_throwing_Inr [OF m]
    by (rule list_all2_mono) (auto split: sum.splits)
  then show thesis
    using that u map_throwing_Inr [OF t] o by blast
qed

lemma teamMembershipFilter_parsed:
  "teamMembershipFilter input (m\<lparr>ms_team := (ms_team m)\<lparr>t_metadata := md\<rparr>\<rparr>)
     = teamMembershipFilter input m"
  by (auto simp: teamMembershipFilter_def split: option.splits)

lemma teamGroup_teamId:
  "teamGroup ext input uid tms m = Inr g \<Longrightarrow> teamId g = Some (t_id (ms_team m))"
  by (auto simp: teamGroup_def Let_def split: sum.splits)

lemma personalGroup_teamId: "teamId (personalGroup ext user ets) = None"
  by (simp add: personalGroup_def)

text \<open>Every team group of an answer arises from a loaded membership that passes the
  membership filter.\<close>

lemma team_group_origin:
  assumes "getByViewer_groups ext uid input user = Inr out"
    and "g \<in> set (eventTypeGroups out)" and "teamId g \<noteq> None"
  shows "\<exists>m\<in>set (v_teams user). \<exists>md. teamMembershipFilter input m
           \<and> teamGroup ext input uid
                (map (\<lambda>membership. (t_id (ms_team membership), ms_role membership)) (v_teams user))
                (m\<lparr>ms_team := (ms_team m)\<lparr>t_metadata := md\<rparr>\<rparr>) = Inr g"
proof -
  from assms(1) obtain memberships userEventTypes teamGroups where
    a: "list_all2 (\<lambda>m m'. \<exists>md. m' = m\<lparr>ms_team := (ms_team m)\<lparr>t_metadata := md\<rparr>\<rparr>)
       (v_teams user) memberships"
    and c: "list_all2 (\<lambda>m g. teamGroup ext input uid
                         (map (\<lambda>membership. (t_id (ms_team membership), ms_role membership))
                            (v_teams user)) m = Inr g)
       (filter (teamMembershipFilter input) memberships) teamGroups"
    and d: "eventTypeGroups out =
       (if personalGroupIncluded input (v_id user)
        then [personalGroup ext user
                (filter (\<lambda>evType. et_schedulingType evType \<noteq> Some MANAGED) userEventTypes)]
        else []) @ teamGroups"
    by (rule getByViewer_groups_Inr)
  from assms(2,3) d have "g \<in> set teamGroups"
    by (auto simp: personalGroup_teamId split: if_splits)
  with c obtain m' where m': "m' \<in> set (filter (teamMembershipFilter input) memberships)"
    and g: "teamGroup ext input uid
                         (map (\<lambda>membership. (t_id (ms_team membership), ms_role membership))
                            (v_teams user)) m' = Inr g"
    using list_all2_right_member [OF c] by blast
  from m' have "m' \<in> set memberships"
    by simp
  with a obtain m md where "m \<in> set (v_teams user)"
    and "m' = m\<lparr>ms_team := (ms_team m)\<lparr>t_metadata := md\<rparr>\<rparr>"
    using list_all2_right_member [OF a] by blast
  with m' g show ?thesis
    by (auto simp: teamMembershipFilter_parsed)
qed

lemma group_origin:
  assumes "getByViewer_groups ext uid input user = Inr out"
    and "g \<in> set (eventTypeGroups out)"
  shows "(\<exists>ets. g = personalGroup ext user ets)
         \<or> (\<exists>m\<in>set (v_teams user). \<exists>md.
               teamGroup ext input uid
                 (map (\<lambda>membership. (t_id (ms_team membership), ms_role membership))
                    (v_teams user))
                 (m\<lparr>ms_team := (ms_team m)\<lparr>t_metadata := md\<rparr>\<rparr>) = Inr g)"
proof (cases "teamId g")
  case None
  from assms(1) obtain memberships userEventTypes teamGroups where
    c: "list_all2 (\<lambda>m g. teamGroup ext input uid
                         (map (\<lambda>membership. (t_id (ms_team membership), ms_role membership))
                            (v_teams user)) m = Inr g)
       (filter (teamMembershipFilter input) memberships) teamGroups"
    and d: "eventTypeGroups out =
       (if personalGroupIncluded input (v_id user)
        then [personalGroup ext user
                (filter (\<lambda>evType. et_schedulingType evType \<noteq> Some MANAGED) userEventTypes)]
        else []) @ teamGroups"
    by (rule getByViewer_groups_Inr)
  have "g \<notin> set teamGroups"
  proof
    assume "g \<in> set teamGroups"
    from list_all2_right_member [OF c this] obtain m' where
      "teamGroup ext input uid
         (map (\<lambda>membership. (t_id (ms_team membership), ms_role membership)) (v_teams user))
         m' = Inr g"
      by blast
    from teamGroup_teamId [OF this] None show False
      by simp
  qed
  with assms(2) d show ?thesis
    by (auto split: if_splits)
next
  case (Some t)
  then have "teamId g \<noteq> None"
    by simp
  from team_group_origin [OF assms this] show ?thesis
    by blast
qed

lemma group_teamIds:
  assumes "getByViewer_groups ext uid input user = Inr out"
  shows "map teamId (eventTypeGroups out) =
     (if personalGroupIncluded input (v_id user) then [None] else [])
     @ map (\<lambda>m. Some (t_id (ms_team m))) (filter (teamMembershipFilter input) (v_teams user))"
proof -
  from assms(1) obtain memberships userEventTypes teamGroups where
    a: "list_all2 (\<lambda>m m'. \<exists>md. m' = m\<lparr>ms_team := (ms_team m)\<lparr>t_metadata := md\<rparr>\<rparr>)
       (v_teams user) memberships"
    and c: "list_all2 (\<lambda>m g. teamGroup ext input uid
                         (map (\<lambda>membership. (t_id (ms_team membership), ms_role membership))
                            (v_teams user)) m = Inr g)
       (filter (teamMembershipFilter input) memberships) teamGroups"
    and d: "eventTypeGroups out =
       (if personalGroupIncluded input (v_id user)
        then [personalGroup ext user
                (filter (\<lambda>evType. et_schedulingType evType \<noteq> Some MANAGED) userEventTypes)]
        else []) @ teamGroups"
    by (rule getByViewer_groups_Inr)
  have "list_all2 (\<lambda>m m'. \<exists>md. m' = m\<lparr>ms_team := (ms_team m)\<lparr>t_metadata := md\<rparr>\<rparr>)
          (filter (teamMembershipFilter input) (v_teams user))
          (filter (teamMembershipFilter input) memberships)"
    using a by (rule list_all2_filter) (auto simp: teamMembershipFilter_parsed)
  from list_all2_compose [OF this c]
  have "list_all2 (\<lambda>m g. teamId g = Some (t_id (ms_team m)))
          (filter (teamMembershipFilter input) (v_teams user)) teamGroups"
    by (rule list_all2_mono) (auto dest!: teamGroup_teamId)
  then have "map teamId teamGroups
      = map (\<lambda>m. Some (t_id (ms_team m))) (filter (teamMembershipFilter input) (v_teams user))"
    by (induction rule: list_all2_induct) auto
  with d show ?thesis
    by (simp add: personalGroup_teamId)
qed

section \<open>Team filter\<close>

lemma teamMembershipFilter_active:
  assumes "filtersOf input = Some fs" and "hasFilter fs"
  shows "teamMembershipFilter input
     = (\<lambda>m. \<not> t_isOrganization (ms_team m)
        \<and> (case teamIds fs of None \<Rightarrow> False | Some ids \<Rightarrow> t_id (ms_team m) \<in> set ids))"
  using assms by (auto simp: teamMembershipFilter_def fun_eq_iff split: option.splits)

text \<open>C1, as the code has it: when the filter set of a request is active, the team groups
  of the answer are, in order, the groups of the loaded (accepted) memberships whose team
  is not an organization and whose team id is listed in \<open>filters.teamIds\<close>; a filter set
  without a team-id criterion (for instance one that gives only \<open>userIds\<close>) leaves no
  team group in the answer.\<close>

theorem team_groups_under_active_filter:
  assumes "getByViewerHandler ext d ctx_user_id input = Inr out"
    and "user_findUnique d ctx_user_id (filtersOf input) = Some user"
    and "filtersOf input = Some fs"
    and "hasFilter fs"
  shows "map teamId (filter (\<lambda>g. teamId g \<noteq> None) (eventTypeGroups out))
           = map (\<lambda>m. Some (t_id (ms_team m)))
               (filter (\<lambda>m. \<not> t_isOrganization (ms_team m)
                             \<and> (case teamIds fs of
                                   None \<Rightarrow> False
                                 | Some ids \<Rightarrow> t_id (ms_team m) \<in> set ids))
                  (v_teams user))
         \<and> (teamIds fs = None \<longrightarrow> (\<forall>g\<in>set (eventTypeGroups out). teamId g = None))"
proof -
  have groups: "getByViewer_groups ext ctx_user_id input user = Inr out"
    using assms(1,2) by (rule getByViewerHandler_Inr)
  have ids: "map teamId (eventTypeGroups out) =
     (if personalGroupIncluded input (v_id user) then [None] else [])
     @ map (\<lambda>m. Some (t_id (ms_team m))) (filter (teamMembershipFilter input) (v_teams user))"
    using groups by (rule group_teamIds)
  have "map teamId (filter (\<lambda>g. teamId g \<noteq> None) (eventTypeGroups out))
          = filter (\<lambda>t. t \<noteq> None) (map teamId (eventTypeGroups out))"
    by (simp add: filter_map comp_def)
  also have "\<dots> = map (\<lambda>m. Some (t_id (ms_team m)))
                     (filter (teamMembershipFilter input) (v_teams user))"
    unfolding ids by (simp add: filter_map comp_def)
  finally have first: "map teamId (filter (\<lambda>g. teamId g \<noteq> None) (eventTypeGroups out))
           = map (\<lambda>m. Some (t_id (ms_team m)))
               (filter (\<lambda>m. \<not> t_isOrganization (ms_team m)
                             \<and> (case teamIds fs of
                                   None \<Rightarrow> False
                                 | Some ids \<Rightarrow> t_id (ms_team m) \<in> set ids))
                  (v_teams user))"
    by (simp add: teamMembershipFilter_active [OF assms(3,4)])
  have "\<forall>g\<in>set (eventTypeGroups out). teamId g = None" if "teamIds fs = None"
  proof -
    from first that have "filter (\<lambda>g. teamId g \<noteq> None) (eventTypeGroups out) = []"
      by simp
    then show ?thesis
      by (simp add: filter_empty_conv)
  qed
  with first show ?thesis
    by blast
qed

theorem team_groups_under_active_filter_witness:
  "getByViewerHandler example_externals example_db 1 example_input_team_11
     = Inr example_answer_team_11
   \<and> user_findUnique example_db 1 (filtersOf example_input_team_11) = Some example_viewer_team_11
   \<and> filtersOf example_input_team_11 = Some \<lparr>teamIds = Some [11], userIds = None\<rparr>
   \<and> hasFilter \<lparr>teamIds = Some [11], userIds = None\<rparr>
   \<and> map (\<lambda>m. t_id (ms_team m)) (v_teams example_viewer_team_11) = [10, 11, 12]
   \<and> map teamId (filter (\<lambda>g. teamId g \<noteq> None) (eventTypeGroups example_answer_team_11))
       = [Some 11]"
proof -
  have run: "getByViewerHandler example_externals example_db 1 example_input_team_11
     = Inr example_answer_team_11"
    unfolding example_answer_team_11_def by code_simp
  have viewer: "user_findUnique example_db 1 (filtersOf example_input_team_11)
     = Some example_viewer_team_11"
    unfolding example_viewer_team_11_def by code_simp
  have fs: "filtersOf example_input_team_11 = Some \<lparr>teamIds = Some [11], userIds = None\<rparr>"
    by code_simp
  have active: "hasFilter \<lparr>teamIds = Some [11], userIds = None\<rparr>"
    by code_simp
  have teams: "map (\<lambda>m. t_id (ms_team m)) (v_teams example_viewer_team_11) = [10, 11, 12]"
    by code_simp
  have "map (\<lambda>m. Some (t_id (ms_team m)))
               (filter (\<lambda>m. \<not> t_isOrganization (ms_team m)
                             \<and> (case teamIds \<lparr>teamIds = Some [11], userIds = None\<rparr> of
                                   None \<Rightarrow> False
                                 | Some ids \<Rightarrow> t_id (ms_team m) \<in> set ids))
                  (v_teams example_viewer_team_11)) = [Some 11]"
    by code_simp
  with team_groups_under_active_filter [OF run viewer fs active] run viewer fs active teams
  show ?thesis
    by simp
qed

text \<open>A filter set without a team-id criterion does exclude team groups: user 1 is an
  accepted member of the team Sales (11), which is not an organization; under the active
  filter \<open>{ userIds: [1] }\<close> the answer holds the personal group alone.\<close>

theorem userIds_only_filter_counterexample:
  "hasFilter \<lparr>teamIds = None, userIds = Some [1]\<rparr>
   \<and> example_membership 1 11 MEMBER True \<in> set (db_memberships example_db)
   \<and> example_team 11 False ''Sales'' (Some ''sales'') (Some 10) \<in> set (db_teams example_db)
   \<and> groupsSummary (getByViewerHandler example_externals example_db 1 example_input_user_1)
       = Inr [(None, [101, 100], Some ''owner'', None, False)]"
  by code_simp

section \<open>Profile slug of a team group\<close>

lemma teamGroup_slug:
  assumes "teamGroup ext input uid tms m = Inr g"
  shows "profile_slug (group_profile g)
         = (if forRoutingFormsOf input
            then Some (''team/'' @ template_null (t_slug (ms_team m)))
            else if truthy_string (t_slug (ms_team m))
                 then (if \<not> truthy_number (t_parentId (ms_team m))
                       then Some (''team/'' @ template_null (t_slug (ms_team m)))
                       else Some (template_null (t_slug (ms_team m))))
                 else None)"
  using assms unfolding teamGroup_def Let_def
  by (auto split: sum.splits)

text \<open>Where the team has a slug: \<open>team/\<close> and the slug for routing forms and for a team
  without a parent, the bare slug for a team with a parent.\<close>

lemma teamGroup_slug_present:
  assumes "teamGroup ext input uid tms m = Inr g"
    and "t_slug (ms_team m) = Some s" and "s \<noteq> []"
    and "t_parentId (ms_team m) \<noteq> Some 0"
  shows "profile_slug (group_profile g)
         = (if forRoutingFormsOf input \<or> t_parentId (ms_team m) = None
            then Some (''team/'' @ s) else Some s)"
  using teamGroup_slug [OF assms(1)] assms(2-4)
  by (cases "t_parentId (ms_team m)") auto

text \<open>Where the team has no slug, the slug of the group is null outside routing forms and
  the string \<open>team/null\<close> for routing forms.\<close>

lemma teamGroup_slug_null:
  assumes "teamGroup ext input uid tms m = Inr g"
    and "t_slug (ms_team m) = None"
  shows "profile_slug (group_profile g)
         = (if forRoutingFormsOf input then Some ''team/null'' else None)"
  using teamGroup_slug [OF assms(1)] assms(2)
  by simp

text \<open>C2 at a team without a slug: team 12 of the example store has a null slug, user 1
  is an accepted member of it, and in the answer to a request for routing forms the slug
  of its group is the string \<open>team/null\<close>, where C2 says nil.\<close>

theorem routing_forms_null_slug:
  "example_team 12 False ''Side'' None None \<in> set (db_teams example_db)
   \<and> groupsSummary (getByViewerHandler example_externals example_db 1 example_input_routing)
       = Inr [(None, [101, 100], Some ''owner'', None, False),
              (Some 11, [201], Some ''team/sales'', Some OWNER, False),
              (Some 12, [203, 204], Some ''team/null'', Some ADMIN, False)]"
  by code_simp

section \<open>The personal group\<close>

text \<open>The personal group is in the answer exactly when no filter set is active or
  \<open>filters.userIds\<close> holds the viewer's id, and it is then the first group.\<close>

lemma personal_group_first:
  assumes "getByViewerHandler ext d ctx_user_id input = Inr out"
    and "user_findUnique d ctx_user_id (filtersOf input) = Some user"
  shows "(\<exists>g\<in>set (eventTypeGroups out). teamId g = None)
           \<longleftrightarrow> personalGroupIncluded input ctx_user_id"
    and "personalGroupIncluded input ctx_user_id
           \<Longrightarrow> \<exists>ets rest. eventTypeGroups out = personalGroup ext user ets # rest"
proof -
  have groups: "getByViewer_groups ext ctx_user_id input user = Inr out"
    using assms by (rule getByViewerHandler_Inr)
  have id: "v_id user = ctx_user_id"
    using assms(2) by (rule user_findUnique_id)
  have "set (map teamId (eventTypeGroups out))
          = set ((if personalGroupIncluded input (v_id user) then [None] else [])
                 @ map (\<lambda>m. Some (t_id (ms_team m)))
                     (filter (teamMembershipFilter input) (v_teams user)))"
    using group_teamIds [OF groups] by simp
  then have "None \<in> teamId ` set (eventTypeGroups out)
              \<longleftrightarrow> personalGroupIncluded input (v_id user)"
    by auto
  then show "(\<exists>g\<in>set (eventTypeGroups out). teamId g = None)
           \<longleftrightarrow> personalGroupIncluded input ctx_user_id"
    unfolding id by (metis (mono_tags, lifting) image_iff)
  show "\<exists>ets rest. eventTypeGroups out = personalGroup ext user ets # rest"
    if "personalGroupIncluded input ctx_user_id"
  proof -
    from groups obtain memberships userEventTypes teamGroups where
      "eventTypeGroups out =
         (if personalGroupIncluded input (v_id user)
          then [personalGroup ext user
                  (filter (\<lambda>evType. et_schedulingType evType \<noteq> Some MANAGED) userEventTypes)]
          else []) @ teamGroups"
      by (rule getByViewer_groups_Inr)
    with that id show ?thesis
      by auto
  qed
qed

text \<open>The query asks for the viewer's own event types only when no filter set is active or
  the viewer's id is the first of \<open>filters.userIds\<close>.\<close>

lemma getPrismaWhereUserIdFromFilter_cases:
  "getPrismaWhereUserIdFromFilter userId fso
   = (if (case fso of
            None \<Rightarrow> True
          | Some fs \<Rightarrow> \<not> hasFilter fs
                       \<or> (case userIds fs of None \<Rightarrow> False | Some ids \<Rightarrow> ids \<noteq> [] \<and> hd ids = userId))
      then userId else 0)"
  by (auto simp: getPrismaWhereUserIdFromFilter_def split: option.splits list.splits)

text \<open>C3 at a user filter that lists the viewer second: user 1 is listed in
  \<open>filters.userIds = [2, 1]\<close>, so the personal group is in the answer, but the query has
  asked for the event types of user 0 and the group has no event types; the personal event
  types of user 1 that are not MANAGED are 101 and 100, as the answer under
  \<open>filters.userIds = [1]\<close> shows.\<close>

theorem personal_group_viewer_listed_second:
  "groupsSummary (getByViewerHandler example_externals example_db 1 example_input_users_2_1)
     = Inr [(None, [], Some ''owner'', None, False)]
   \<and> groupsSummary (getByViewerHandler example_externals example_db 1 example_input_user_1)
       = Inr [(None, [101, 100], Some ''owner'', None, False)]"
  by code_simp

section \<open>Effective role and read-only flag\<close>

lemma find_teamMemberships:
  "map_option snd
     (List.find (\<lambda>teamM. Some (fst teamM) = pid)
        (map (\<lambda>membership. (t_id (ms_team membership), ms_role membership)) ms))
   = map_option ms_role (List.find (\<lambda>pm. Some (t_id (ms_team pm)) = pid) ms)"
  by (induction ms) auto

lemma teamGroup_membershipRole:
  assumes "teamGroup ext input uid tms m = Inr g"
  shows "membershipRole g
         = (case map_option snd
                   (List.find (\<lambda>teamM. Some (fst teamM) = t_parentId (ms_team m)) tms) of
              None \<Rightarrow> Some (ms_role m)
            | Some om \<Rightarrow> if compareMembership om (ms_role m) then Some om
                          else Some (ms_role m))"
  using assms unfolding teamGroup_def Let_def
  by (auto split: sum.splits)

lemma teamGroup_readOnly:
  assumes "teamGroup ext input uid tms m = Inr g"
  shows "readOnly (metadata g)
         = (ms_role m
            = (if truthy_number (t_parentId (ms_team m))
               then (case map_option snd
                            (List.find (\<lambda>teamM. Some (fst teamM) = t_parentId (ms_team m)) tms) of
                       None \<Rightarrow> MEMBER
                     | Some om \<Rightarrow> if compareMembership om (ms_role m) then om else MEMBER)
               else MEMBER))"
  using assms unfolding teamGroup_def Let_def
  by (auto split: sum.splits)

lemma teamGroup_role:
  assumes "teamGroup ext input uid
             (map (\<lambda>membership. (t_id (ms_team membership), ms_role membership)) teams)
             (m\<lparr>ms_team := (ms_team m)\<lparr>t_metadata := md\<rparr>\<rparr>) = Inr g"
    and "\<forall>x\<in>set teams. t_id (ms_team x) \<noteq> 0"
  shows "membershipRole g = Some (effectiveRole teams m)
         \<and> (readOnly (metadata g) \<longleftrightarrow> effectiveRole teams m = MEMBER)"
proof -
  define org where
    "org = map_option ms_role
             (List.find (\<lambda>pm. Some (t_id (ms_team pm)) = t_parentId (ms_team m)) teams)"
  have role: "membershipRole g
         = (case org of
              None \<Rightarrow> Some (ms_role m)
            | Some om \<Rightarrow> if compareMembership om (ms_role m) then Some om
                          else Some (ms_role m))"
    using teamGroup_membershipRole [OF assms(1)]
    unfolding find_teamMemberships org_def by (auto split: option.splits)
  have ro: "readOnly (metadata g)
         = (ms_role m
            = (if truthy_number (t_parentId (ms_team m))
               then (case org of
                       None \<Rightarrow> MEMBER
                     | Some om \<Rightarrow> if compareMembership om (ms_role m) then om else MEMBER)
               else MEMBER))"
    using teamGroup_readOnly [OF assms(1)]
    unfolding find_teamMemberships org_def by (auto split: option.splits)
  show ?thesis
  proof (cases "t_parentId (ms_team m)")
    case None
    then have "org = None"
      by (simp add: org_def find_False)
    with None role ro show ?thesis
      by (simp add: effectiveRole_def)
  next
    case (Some p)
    show ?thesis
    proof (cases "List.find (\<lambda>pm. t_id (ms_team pm) = p) teams")
      case None
      with Some have "org = None"
        by (simp add: org_def)
      with None Some role ro show ?thesis
        by (simp add: effectiveRole_def)
    next
      case found: (Some pm)
      then have "pm \<in> set teams" and "t_id (ms_team pm) = p"
        by (auto simp: find_Some_iff)
      with assms(2) have "p \<noteq> 0"
        by auto
      from found Some have "org = Some (ms_role pm)"
        by (simp add: org_def)
      with found Some role ro \<open>p \<noteq> 0\<close> show ?thesis
        by (auto simp: effectiveRole_def compareMembership_role_index role_index_MEMBER)
    qed
  qed
qed

text \<open>C4: every team group of an answer arises from a loaded membership of the viewer;
  its \<open>membershipRole\<close> is the effective role of that membership (the stronger of the role
  in the parent and the role in the team when the team has a parent in which the viewer
  holds a membership, by the strength order MEMBER < ADMIN < OWNER of \<open>role_index\<close>; the
  role in the team otherwise), and \<open>metadata.readOnly\<close> is true exactly when the effective
  role is MEMBER. The ids of the store's teams are taken to be different from 0.\<close>

theorem team_group_effective_role:
  assumes "getByViewerHandler ext d ctx_user_id input = Inr out"
    and "user_findUnique d ctx_user_id (filtersOf input) = Some user"
    and "\<forall>t\<in>set (db_teams d). team_id t \<noteq> 0"
    and "g \<in> set (eventTypeGroups out)"
    and "teamId g \<noteq> None"
  shows "\<exists>m\<in>set (v_teams user).
           teamId g = Some (t_id (ms_team m))
           \<and> membershipRole g = Some (effectiveRole (v_teams user) m)
           \<and> (readOnly (metadata g) \<longleftrightarrow> effectiveRole (v_teams user) m = MEMBER)"
proof -
  have "getByViewer_groups ext ctx_user_id input user = Inr out"
    using assms(1,2) by (rule getByViewerHandler_Inr)
  from team_group_origin [OF this assms(4,5)] obtain m md where
    m: "m \<in> set (v_teams user)"
    and g: "teamGroup ext input ctx_user_id
              (map (\<lambda>membership. (t_id (ms_team membership), ms_role membership)) (v_teams user))
              (m\<lparr>ms_team := (ms_team m)\<lparr>t_metadata := md\<rparr>\<rparr>) = Inr g"
    by blast
  have "\<forall>x\<in>set (v_teams user). t_id (ms_team x) \<noteq> 0"
    using loaded_team_in_store [OF assms(2)] assms(3) by metis
  from teamGroup_role [OF g this] teamGroup_teamId [OF g] m show ?thesis
    by auto
qed

theorem team_group_effective_role_witness:
  "getByViewerHandler example_externals example_db 1 None = Inr example_answer
   \<and> user_findUnique example_db 1 (filtersOf None) = Some example_viewer
   \<and> list_all (\<lambda>t. team_id t \<noteq> 0) (db_teams example_db)
   \<and> teamId (eventTypeGroups example_answer ! 1) = Some 11
   \<and> membershipRole (eventTypeGroups example_answer ! 1) = Some OWNER
   \<and> \<not> readOnly (metadata (eventTypeGroups example_answer ! 1))
   \<and> (\<exists>m\<in>set (v_teams example_viewer).
         teamId (eventTypeGroups example_answer ! 1) = Some (t_id (ms_team m))
         \<and> membershipRole (eventTypeGroups example_answer ! 1)
             = Some (effectiveRole (v_teams example_viewer) m)
         \<and> (readOnly (metadata (eventTypeGroups example_answer ! 1))
              \<longleftrightarrow> effectiveRole (v_teams example_viewer) m = MEMBER))"
proof -
  have run: "getByViewerHandler example_externals example_db 1 None = Inr example_answer"
    unfolding example_answer_def by code_simp
  have viewer: "user_findUnique example_db 1 (filtersOf None) = Some example_viewer"
    unfolding example_viewer_def by code_simp
  have ids: "list_all (\<lambda>t. team_id t \<noteq> 0) (db_teams example_db)"
    by code_simp
  then have ids': "\<forall>t\<in>set (db_teams example_db). team_id t \<noteq> 0"
    by (simp add: list_all_iff)
  have len: "length (eventTypeGroups example_answer) = 3"
    unfolding example_answer_def by code_simp
  then have mem: "eventTypeGroups example_answer ! 1 \<in> set (eventTypeGroups example_answer)"
    by simp
  have tid: "teamId (eventTypeGroups example_answer ! 1) = Some 11"
    unfolding example_answer_def by code_simp
  have role: "membershipRole (eventTypeGroups example_answer ! 1) = Some OWNER"
    unfolding example_answer_def by code_simp
  have ro: "\<not> readOnly (metadata (eventTypeGroups example_answer ! 1))"
    unfolding example_answer_def by code_simp
  from tid have "teamId (eventTypeGroups example_answer ! 1) \<noteq> None"
    by simp
  from team_group_effective_role [OF run viewer ids' mem this] run viewer ids tid role ro
  show ?thesis
    by blast
qed

section \<open>Event types of a team group\<close>

lemma teamGroup_eventTypes:
  assumes "teamGroup ext input uid tms m = Inr g"
  shows "\<exists>mapped. map_throwing (mapEventType ext) (t_eventTypes (ms_team m)) = Inr mapped
           \<and> eventTypes g
               = filter (\<lambda>evType. if ms_role m = MEMBER
                                  then et_schedulingType evType \<noteq> Some MANAGED else True)
                   (filter (\<lambda>evType. et_userId evType = None \<or> et_userId evType = Some uid)
                      (filter (filterTeamsEventTypesBasedOnInput input) mapped))"
  using assms unfolding teamGroup_def Let_def
  by (auto split: sum.splits)

text \<open>C5: every team group of an answer arises from a loaded membership of the viewer. When
  the role of that membership is MEMBER, no event type of the group has the scheduling
  type MANAGED; when it is ADMIN or OWNER, the event types of the group are the mapped
  event types of the team that pass the team filter and the user-id test, MANAGED ones
  included. In either case every event type of the group has \<open>userId\<close> null or equal to the
  viewer's id.\<close>

theorem team_group_event_types:
  assumes "getByViewerHandler ext d ctx_user_id input = Inr out"
    and "user_findUnique d ctx_user_id (filtersOf input) = Some user"
    and "g \<in> set (eventTypeGroups out)"
    and "teamId g \<noteq> None"
  shows "\<exists>m\<in>set (v_teams user).
           teamId g = Some (t_id (ms_team m))
           \<and> (ms_role m = MEMBER
                \<longrightarrow> (\<forall>e\<in>set (eventTypes g). et_schedulingType e \<noteq> Some MANAGED))
           \<and> (ms_role m \<noteq> MEMBER
                \<longrightarrow> (\<exists>mapped.
                       map_throwing (mapEventType ext) (t_eventTypes (ms_team m)) = Inr mapped
                       \<and> eventTypes g
                           = filter (\<lambda>e. et_userId e = None \<or> et_userId e = Some ctx_user_id)
                               (filter (filterTeamsEventTypesBasedOnInput input) mapped)))
           \<and> (\<forall>e\<in>set (eventTypes g). et_userId e = None \<or> et_userId e = Some ctx_user_id)"
proof -
  have "getByViewer_groups ext ctx_user_id input user = Inr out"
    using assms(1,2) by (rule getByViewerHandler_Inr)
  from team_group_origin [OF this assms(3,4)] obtain m md where
    m: "m \<in> set (v_teams user)"
    and g: "teamGroup ext input ctx_user_id
              (map (\<lambda>membership. (t_id (ms_team membership), ms_role membership)) (v_teams user))
              (m\<lparr>ms_team := (ms_team m)\<lparr>t_metadata := md\<rparr>\<rparr>) = Inr g"
    by blast
  from teamGroup_eventTypes [OF g] obtain mapped where
    mapped: "map_throwing (mapEventType ext) (t_eventTypes (ms_team m)) = Inr mapped"
    and ets: "eventTypes g
               = filter (\<lambda>evType. if ms_role m = MEMBER
                                  then et_schedulingType evType \<noteq> Some MANAGED else True)
                   (filter (\<lambda>evType. et_userId evType = None
                                      \<or> et_userId evType = Some ctx_user_id)
                      (filter (filterTeamsEventTypesBasedOnInput input) mapped))"
    by auto
  have id: "teamId g = Some (t_id (ms_team m))"
    using teamGroup_teamId [OF g] by simp
  have member: "\<forall>e\<in>set (eventTypes g). et_schedulingType e \<noteq> Some MANAGED"
    if "ms_role m = MEMBER"
    using ets that by auto
  have other: "eventTypes g
                 = filter (\<lambda>e. et_userId e = None \<or> et_userId e = Some ctx_user_id)
                     (filter (filterTeamsEventTypesBasedOnInput input) mapped)"
    if "ms_role m \<noteq> MEMBER"
    using ets that by simp
  have owner: "\<forall>e\<in>set (eventTypes g). et_userId e = None \<or> et_userId e = Some ctx_user_id"
    using ets by auto
  from m id member other owner mapped show ?thesis
    by blast
qed

theorem team_group_event_types_witness:
  "getByViewerHandler example_externals example_db 1 None = Inr example_answer
   \<and> user_findUnique example_db 1 (filtersOf None) = Some example_viewer
   \<and> map (\<lambda>m. (t_id (ms_team m), ms_role m)) (v_teams example_viewer)
       = [(10, OWNER), (11, MEMBER), (12, ADMIN)]
   \<and> teamId (eventTypeGroups example_answer ! 1) = Some 11
   \<and> list_all (\<lambda>e. et_schedulingType e \<noteq> Some MANAGED)
        (eventTypes (eventTypeGroups example_answer ! 1))
   \<and> list_all (\<lambda>e. et_userId e = None \<or> et_userId e = Some 1)
        (eventTypes (eventTypeGroups example_answer ! 1))
   \<and> map (\<lambda>e. (et_id e, et_schedulingType e)) (eventTypes (eventTypeGroups example_answer ! 2))
       = [(203, Some MANAGED), (204, Some ROUND_ROBIN)]"
proof -
  have run: "getByViewerHandler example_externals example_db 1 None = Inr example_answer"
    unfolding example_answer_def by code_simp
  have viewer: "user_findUnique example_db 1 (filtersOf None) = Some example_viewer"
    unfolding example_viewer_def by code_simp
  have teams: "map (\<lambda>m. (t_id (ms_team m), ms_role m)) (v_teams example_viewer)
       = [(10, OWNER), (11, MEMBER), (12, ADMIN)]"
    unfolding example_viewer_def by code_simp
  have len: "length (eventTypeGroups example_answer) = 3"
    unfolding example_answer_def by code_simp
  then have mem: "eventTypeGroups example_answer ! 1 \<in> set (eventTypeGroups example_answer)"
    by simp
  have tid: "teamId (eventTypeGroups example_answer ! 1) = Some 11"
    unfolding example_answer_def by code_simp
  then have "teamId (eventTypeGroups example_answer ! 1) \<noteq> None"
    by simp
  from team_group_event_types [OF run viewer mem this] obtain m where
    m: "m \<in> set (v_teams example_viewer)"
    and id: "teamId (eventTypeGroups example_answer ! 1) = Some (t_id (ms_team m))"
    and member: "ms_role m = MEMBER
       \<Longrightarrow> \<forall>e\<in>set (eventTypes (eventTypeGroups example_answer ! 1)).
             et_schedulingType e \<noteq> Some MANAGED"
    and owner: "\<forall>e\<in>set (eventTypes (eventTypeGroups example_answer ! 1)).
                  et_userId e = None \<or> et_userId e = Some 1"
    by blast
  from m have "(t_id (ms_team m), ms_role m)
                 \<in> set (map (\<lambda>m. (t_id (ms_team m), ms_role m)) (v_teams example_viewer))"
    by simp
  with teams id tid have "ms_role m = MEMBER"
    by auto
  from member [OF this] owner have
    "list_all (\<lambda>e. et_schedulingType e \<noteq> Some MANAGED)
        (eventTypes (eventTypeGroups example_answer ! 1))"
    "list_all (\<lambda>e. et_userId e = None \<or> et_userId e = Some 1)
        (eventTypes (eventTypeGroups example_answer ! 1))"
    by (simp_all add: list_all_iff)
  moreover have "map (\<lambda>e. (et_id e, et_schedulingType e))
                   (eventTypes (eventTypeGroups example_answer ! 2))
       = [(203, Some MANAGED), (204, Some ROUND_ROBIN)]"
    unfolding example_answer_def by code_simp
  ultimately show ?thesis
    using run viewer teams tid by simp
qed

section \<open>Order of the event types of a group\<close>

text \<open>C8: when the store has answered the event types of every team ordered by position
  (descending) and id (ascending), the event types of every group of an answer, personal
  or team, are ordered so: of two event types the earlier one has the greater position,
  or the same position and an id that is not greater. The handler is a function of the
  externals, the store and the input, so a second run on the same data gives the same
  answer.\<close>

theorem event_types_ordered:
  assumes "getByViewerHandler ext d ctx_user_id input = Inr out"
    and "user_findUnique d ctx_user_id (filtersOf input) = Some user"
    and "\<forall>m\<in>set (v_teams user). sorted_wrt position_desc_id_asc (t_eventTypes (ms_team m))"
  shows "(\<forall>g\<in>set (eventTypeGroups out). sorted_wrt position_desc_id_asc (eventTypes g))
         \<and> (\<forall>out'. getByViewerHandler ext d ctx_user_id input = Inr out' \<longrightarrow> out' = out)"
proof -
  have groups: "getByViewer_groups ext ctx_user_id input user = Inr out"
    using assms(1,2) by (rule getByViewerHandler_Inr)
  have "sorted_wrt position_desc_id_asc (eventTypes g)" if "g \<in> set (eventTypeGroups out)" for g
    using group_origin [OF groups that]
  proof
    assume "\<exists>ets. g = personalGroup ext user ets"
    then show ?thesis
      by (auto simp: personalGroup_def sorted_orderBy)
  next
    assume "\<exists>m\<in>set (v_teams user). \<exists>md.
               teamGroup ext input ctx_user_id
                 (map (\<lambda>membership. (t_id (ms_team membership), ms_role membership))
                    (v_teams user))
                 (m\<lparr>ms_team := (ms_team m)\<lparr>t_metadata := md\<rparr>\<rparr>) = Inr g"
    then obtain m md where m: "m \<in> set (v_teams user)"
      and g: "teamGroup ext input ctx_user_id
                 (map (\<lambda>membership. (t_id (ms_team membership), ms_role membership))
                    (v_teams user))
                 (m\<lparr>ms_team := (ms_team m)\<lparr>t_metadata := md\<rparr>\<rparr>) = Inr g"
      by blast
    from teamGroup_eventTypes [OF g] obtain mapped where
      mapped: "map_throwing (mapEventType ext) (t_eventTypes (ms_team m)) = Inr mapped"
      and ets: "eventTypes g
               = filter (\<lambda>evType. if ms_role m = MEMBER
                                  then et_schedulingType evType \<noteq> Some MANAGED else True)
                   (filter (\<lambda>evType. et_userId evType = None
                                      \<or> et_userId evType = Some ctx_user_id)
                      (filter (filterTeamsEventTypesBasedOnInput input) mapped))"
      by auto
    from m assms(3) have "sorted_wrt position_desc_id_asc (t_eventTypes (ms_team m))"
      by simp
    with mapped have "sorted_wrt position_desc_id_asc mapped"
      by (rule sorted_map_throwing_mapEventType)
    then show ?thesis
      unfolding ets by (intro sorted_wrt_filter)
  qed
  with assms(1) show ?thesis
    by simp
qed

theorem event_types_ordered_witness:
  "getByViewerHandler example_externals example_db 1 None = Inr example_answer
   \<and> user_findUnique example_db 1 (filtersOf None) = Some example_viewer
   \<and> list_all (\<lambda>m. sorted_wrt position_desc_id_asc (t_eventTypes (ms_team m)))
        (v_teams example_viewer)
   \<and> list_all (\<lambda>g. sorted_wrt position_desc_id_asc (eventTypes g))
        (eventTypeGroups example_answer)
   \<and> map (\<lambda>g. map (\<lambda>e. (et_position e, et_id e)) (eventTypes g))
        (eventTypeGroups example_answer)
       = [[(2, 101), (0, 100)], [(1, 201)], [(0, 203), (0, 204)]]"
proof -
  have run: "getByViewerHandler example_externals example_db 1 None = Inr example_answer"
    unfolding example_answer_def by code_simp
  have viewer: "user_findUnique example_db 1 (filtersOf None) = Some example_viewer"
    unfolding example_viewer_def by code_simp
  have stored: "list_all (\<lambda>m. sorted_wrt position_desc_id_asc (t_eventTypes (ms_team m)))
        (v_teams example_viewer)"
    unfolding example_viewer_def by code_simp
  then have "\<forall>m\<in>set (v_teams example_viewer).
               sorted_wrt position_desc_id_asc (t_eventTypes (ms_team m))"
    by (simp add: list_all_iff)
  from event_types_ordered [OF run viewer this]
  have "list_all (\<lambda>g. sorted_wrt position_desc_id_asc (eventTypes g))
        (eventTypeGroups example_answer)"
    by (simp add: list_all_iff)
  moreover have "map (\<lambda>g. map (\<lambda>e. (et_position e, et_id e)) (eventTypes g))
        (eventTypeGroups example_answer)
       = [[(2, 101), (0, 100)], [(1, 201)], [(0, 203), (0, 204)]]"
    unfolding example_answer_def by code_simp
  ultimately show ?thesis
    using run viewer stored by simp
qed

section \<open>adminVerifyHandler: the verification\<close>















section \<open>adminVerifyHandler: the error paths\<close>

lemma team_findFirst_None:
  "team_findFirst d org = None
     \<longleftrightarrow> \<not> (\<exists>t\<in>set (db_teams d). team_id t = org \<and> team_isOrganization t)"
  by (auto simp: team_findFirst_def find_None_iff)

text \<open>C7: if no team with the given \<open>orgId\<close> is flagged \<open>isOrganization\<close>, the handler
  throws the FORBIDDEN error and the store after the call is the store before it.\<close>

theorem adminVerify_forbidden:
  assumes "\<not> (\<exists>t\<in>set (db_teams d). team_id t = orgId input \<and> team_isOrganization t)"
  shows "adminVerifyHandler d input
         = (Inl (TRPCError FORBIDDEN (Some ''This team isnt a org or doesnt exist'')), d)"
proof -
  from assms have "team_findFirst d (orgId input) = None"
    by (simp add: team_findFirst_None)
  then show ?thesis
    by (simp add: adminVerifyHandler_def)
qed

theorem adminVerify_forbidden_witness:
  "list_all (\<lambda>t. \<not> (team_id t = 11 \<and> team_isOrganization t)) (db_teams example_db)
   \<and> adminVerifyHandler example_db \<lparr>orgId = 11\<rparr>
       = (Inl (TRPCError FORBIDDEN (Some ''This team isnt a org or doesnt exist'')), example_db)"
proof -
  have no: "list_all (\<lambda>t. \<not> (team_id t = 11 \<and> team_isOrganization t)) (db_teams example_db)"
    by code_simp
  then have "\<not> (\<exists>t\<in>set (db_teams example_db).
                  team_id t = orgId \<lparr>orgId = 11\<rparr> \<and> team_isOrganization t)"
    by (simp add: list_all_iff)
  from adminVerify_forbidden [OF this] no show ?thesis
    by simp
qed

text \<open>C10: for an organization that exists and has no member of role OWNER, the read of
  \<open>foundOrg.members[0].user.email\<close> fails: the handler throws a TypeError, which is
  neither an answer nor the FORBIDDEN error, and leaves the store as it was.\<close>

theorem adminVerify_no_owner:
  assumes "\<exists>t\<in>set (db_teams d). team_id t = orgId input \<and> team_isOrganization t"
    and "\<not> (\<exists>m\<in>set (db_memberships d).
               membership_teamId m = orgId input \<and> membership_role m = OWNER)"
  shows "adminVerifyHandler d input = (Inl TypeError, d)
         \<and> (\<forall>r. fst (adminVerifyHandler d input) \<noteq> Inr r)
         \<and> (\<forall>msg. fst (adminVerifyHandler d input) \<noteq> Inl (TRPCError FORBIDDEN msg))"
proof -
  from assms(1) obtain t where
    t: "List.find (\<lambda>t. team_id t = orgId input \<and> team_isOrganization t) (db_teams d) = Some t"
    by (cases "List.find (\<lambda>t. team_id t = orgId input \<and> team_isOrganization t) (db_teams d)")
      (auto simp: find_None_iff)
  then have "team_id t = orgId input"
    using find_Some_member [OF t] by simp
  with assms(2) have
    "filter (\<lambda>m. membership_teamId m = team_id t \<and> membership_role m = OWNER) (db_memberships d)
     = []"
    by (auto simp: filter_empty_conv)
  then have "List.map_filter
               (\<lambda>m. map_option (\<lambda>u. (m, u))
                       (List.find (\<lambda>u. user_id u = membership_userId m) (db_users d)))
               (filter (\<lambda>m. membership_teamId m = team_id t \<and> membership_role m = OWNER)
                  (db_memberships d)) = []"
    by (simp only: List.map_filter_simps)
  with t have "team_findFirst d (orgId input) = Some (t, [])"
    by (simp add: team_findFirst_def)
  then have "adminVerifyHandler d input = (Inl TypeError, d)"
    by (simp add: adminVerifyHandler_def)
  then show ?thesis
    by simp
qed

theorem adminVerify_no_owner_witness:
  "list_ex (\<lambda>t. team_id t = 13 \<and> team_isOrganization t) (db_teams example_db)
   \<and> list_all (\<lambda>m. \<not> (membership_teamId m = 13 \<and> membership_role m = OWNER))
        (db_memberships example_db)
   \<and> adminVerifyHandler example_db \<lparr>orgId = 13\<rparr> = (Inl TypeError, example_db)"
proof -
  have org: "list_ex (\<lambda>t. team_id t = 13 \<and> team_isOrganization t) (db_teams example_db)"
    by code_simp
  have no: "list_all (\<lambda>m. \<not> (membership_teamId m = 13 \<and> membership_role m = OWNER))
        (db_memberships example_db)"
    by code_simp
  from org have 1: "\<exists>t\<in>set (db_teams example_db).
                      team_id t = orgId \<lparr>orgId = 13\<rparr> \<and> team_isOrganization t"
    by (simp add: list_ex_iff)
  from no have 2: "\<not> (\<exists>m\<in>set (db_memberships example_db).
               membership_teamId m = orgId \<lparr>orgId = 13\<rparr> \<and> membership_role m = OWNER)"
    by (simp add: list_all_iff)
  from adminVerify_no_owner [OF 1 2] org no show ?thesis
    by simp
qed

end
